theory Spec2Isabelle
  imports Main "HOL-Library.Word"
begin

section \<open>Device types\<close>

text \<open>The members of \<^verbatim>\<open>c10::DeviceType\<close> that the modelled code names.\<close>

datatype DeviceType = CPU | CUDA | MTIA | XPU | HIP | MPS | PrivateUse1

section \<open>Errors\<close>

text \<open>
  Every \<^verbatim>\<open>throw\<close>, \<^verbatim>\<open>TORCH_CHECK\<close> and \<^verbatim>\<open>TORCH_INTERNAL_ASSERT\<close> of the modelled
  functions is a value of this type; a function that can throw returns \<open>error + 'a\<close>
  with \<open>Inl\<close> for the exception.
\<close>

datatype error =
    Logic_Error string
  | Torch_Check_Failed string
  | Internal_Assert_Failed string
  | Cannot_Have_With_Other_Accelerators DeviceType
  | Wrong_Number_Of_Inputs string nat nat
  | Undefined_Input string
  | Shape_Mismatch
  | Generator_Already_Registered

definition and_then :: "error + 'a \<Rightarrow> ('a \<Rightarrow> error + 'b) \<Rightarrow> error + 'b" where
  "and_then r f = (case r of Inl e \<Rightarrow> Inl e | Inr x \<Rightarrow> f x)"

section \<open>c10/util/DeadlockDetection.cpp\<close>

text \<open>
  The process environment is an association list of names and values; \<^verbatim>\<open>std::getenv\<close>
  returns the value of the first entry with the name, or the null pointer.
\<close>

type_synonym environ = "(string \<times> string) list"

definition getenv :: "environ \<Rightarrow> string \<Rightarrow> string option" where
  "getenv env name = map_of env name"

text \<open>
  \<^verbatim>\<open>PythonGILHooks* python_gil_hooks\<close>: a pointer, \<open>None\<close> for \<^verbatim>\<open>nullptr\<close>, otherwise the
  address of the hooks object.
\<close>

type_synonym PythonGILHooks_ptr = "nat option"

definition disable_detection :: "environ \<Rightarrow> bool" where
  "disable_detection env = (getenv env ''TORCH_DISABLE_DEADLOCK_DETECTION'' \<noteq> None)"

text \<open>
  \<open>SetPythonGILHooks env hooks python_gil_hooks\<close> returns the new value of the global
  \<^verbatim>\<open>python_gil_hooks\<close>; when the internal assertion throws, the global was not assigned.
\<close>

definition SetPythonGILHooks ::
  "environ \<Rightarrow> PythonGILHooks_ptr \<Rightarrow> PythonGILHooks_ptr \<Rightarrow> error + PythonGILHooks_ptr" where
  "SetPythonGILHooks env hooks python_gil_hooks =
     (if disable_detection env then Inr python_gil_hooks
      else if \<not> (hooks = None \<or> python_gil_hooks = None)
        then Inl (Internal_Assert_Failed ''!hooks || !python_gil_hooks'')
      else Inr hooks)"

section \<open>aten/src/ATen/DeviceAccelerator.cpp\<close>

text \<open>
  What \<^verbatim>\<open>at::hasCUDA()\<close>, ..., \<^verbatim>\<open>at::hasMPS()\<close> and
  \<^verbatim>\<open>is_privateuse1_backend_registered()\<close> answer in the running process. They are
  queries of the global context (ATen/Context.h), taken here as given.
\<close>

record Context =
  hasCUDA :: bool
  hasMTIA :: bool
  hasXPU :: bool
  hasHIP :: bool
  hasMPS :: bool
  is_privateuse1_backend_registered :: bool

text \<open>
  The macro \<^verbatim>\<open>DETECT_AND_ASSIGN_ACCELERATOR(device_name)\<close>, acting on the two locals
  \<^verbatim>\<open>device_type\<close> and \<^verbatim>\<open>is_accelerator_detected\<close>. The assignment to
  \<^verbatim>\<open>device_type\<close> precedes the check, so the message
  \<^verbatim>\<open>"Cannot have <device> with other accelerators."\<close> names the device found second.
\<close>

definition DETECT_AND_ASSIGN_ACCELERATOR ::
  "bool \<Rightarrow> DeviceType \<Rightarrow> DeviceType option \<times> bool \<Rightarrow> error + (DeviceType option \<times> bool)" where
  "DETECT_AND_ASSIGN_ACCELERATOR has_device k st =
     (if has_device then
        (if snd st then Inl (Cannot_Have_With_Other_Accelerators k)
         else Inr (Some k, True))
      else Inr st)"

definition getAccelerator :: "Context \<Rightarrow> bool \<Rightarrow> error + DeviceType option" where
  "getAccelerator ctx checked =
     (if is_privateuse1_backend_registered ctx then Inr (Some PrivateUse1)
      else
        and_then (DETECT_AND_ASSIGN_ACCELERATOR (hasCUDA ctx) CUDA (None, False)) (\<lambda>st.
        and_then (DETECT_AND_ASSIGN_ACCELERATOR (hasMTIA ctx) MTIA st) (\<lambda>st.
        and_then (DETECT_AND_ASSIGN_ACCELERATOR (hasXPU ctx) XPU st) (\<lambda>st.
        and_then (DETECT_AND_ASSIGN_ACCELERATOR (hasHIP ctx) HIP st) (\<lambda>st.
        and_then (DETECT_AND_ASSIGN_ACCELERATOR (hasMPS ctx) MPS st) (\<lambda>st.
          if checked \<and> fst st = None
          then Inl (Torch_Check_Failed ''Cannot access accelerator device when none is available.'')
          else Inr (fst st)))))))"

definition isAccelerator :: "DeviceType \<Rightarrow> bool" where
  "isAccelerator d = (case d of
       CUDA \<Rightarrow> True | MTIA \<Rightarrow> True | XPU \<Rightarrow> True | HIP \<Rightarrow> True | MPS \<Rightarrow> True
     | PrivateUse1 \<Rightarrow> True | _ \<Rightarrow> False)"

text \<open>The built-in accelerators that the context reports, in the order the code asks.\<close>

definition detected :: "Context \<Rightarrow> DeviceType list" where
  "detected ctx =
     (if hasCUDA ctx then [CUDA] else []) @ (if hasMTIA ctx then [MTIA] else []) @
     (if hasXPU ctx then [XPU] else []) @ (if hasHIP ctx then [HIP] else []) @
     (if hasMPS ctx then [MPS] else [])"

section \<open>Tensors and storage\<close>

text \<open>
  A tensor handle (\<^verbatim>\<open>at::Tensor\<close>) points to a \<^verbatim>\<open>TensorImpl\<close>, which shares a storage
  with the other handles that alias it. The storages live in a memory, a list indexed by
  storage identifier; an allocation appends a storage, so a fresh identifier is the length
  of the memory. Elements are numbers (\<open>int\<close>); no property below depends on floating
  point. \<open>use_count\<close> is the reference count of the \<^verbatim>\<open>TensorImpl\<close> at the time of the
  call. The undefined tensor (\<^verbatim>\<open>at::Tensor()\<close>) is \<open>None\<close>.
\<close>

datatype ScalarType = Half | Float | Double

type_synonym storage_id = nat

type_synonym memory = "int list list"

record TensorImpl =
  storage :: storage_id
  sizes :: "nat list"
  dtype :: ScalarType
  device :: DeviceType
  use_count :: nat

type_synonym Tensor = "TensorImpl option"

definition defined :: "Tensor \<Rightarrow> bool" where
  "defined t = (t \<noteq> None)"

definition read_storage :: "memory \<Rightarrow> storage_id \<Rightarrow> int list" where
  "read_storage mem sid = (if sid < length mem then mem ! sid else [])"

definition data :: "memory \<Rightarrow> TensorImpl \<Rightarrow> int list" where
  "data mem t = read_storage mem (storage t)"

section \<open>torch/csrc/autograd/functions/accumulate_grad.cpp\<close>

text \<open>
  A \<^verbatim>\<open>Variable\<close> as \<open>apply\<close> reads it: \<^verbatim>\<open>grad_fn()\<close> (the producing node, \<open>None\<close>
  for \<^verbatim>\<open>nullptr\<close>), \<^verbatim>\<open>requires_grad()\<close> and the \<^verbatim>\<open>.grad\<close> slot behind
  \<^verbatim>\<open>mutable_grad()\<close>. A leaf is a variable without producing function:
  \<open>grad_fn\<close> is \<open>None\<close>.
\<close>

record Variable =
  grad_fn :: "nat option"
  requires_grad :: bool
  grad :: Tensor

text \<open>
  What happens during one call, in order: taking and releasing the node's \<^verbatim>\<open>mutex_\<close>
  (the \<^verbatim>\<open>std::lock_guard\<close> releases it when \<open>apply\<close> is left, by return or by
  exception), the assignment made by the commit callback, and the call of the
  post-accumulation hook with the variable it is given.
\<close>

datatype event =
    Mutex_Lock
  | Mutex_Unlock
  | Grad_Update Tensor
  | Hook_Call Variable

text \<open>
  A post-accumulation hook is user code: a function on the leaf and the memory.
\<close>

type_synonym PostAccumulateGradHook = "Variable \<times> memory \<Rightarrow> Variable \<times> memory"

text \<open>
  The node: \<^verbatim>\<open>sequence_nr\<close>, \<^verbatim>\<open>post_hooks()\<close> (the function post hooks of the node, by
  identifier) and \<^verbatim>\<open>tensor_post_acc_grad_hooks()\<close> are members of the base class
  \<^verbatim>\<open>Node\<close>; \<^verbatim>\<open>variable\<close> is the member of \<^verbatim>\<open>AccumulateGrad\<close>.
\<close>

record AccumulateGrad =
  sequence_nr :: "64 word"
  variable :: Variable
  post_hooks :: "nat list"
  tensor_post_acc_grad_hooks :: "PostAccumulateGradHook option"

definition UINT64_MAX :: "64 word" where
  "UINT64_MAX = 18446744073709551615"

text \<open>
  The constructor. \<^verbatim>\<open>add_input_metadata(variable)\<close> records the shape and type of the
  expected input in the base class and touches none of the members above. A new node has
  no hooks.
\<close>

definition new_AccumulateGrad :: "Variable \<Rightarrow> AccumulateGrad" where
  "new_AccumulateGrad variable' =
     \<lparr>sequence_nr = UINT64_MAX, variable = variable', post_hooks = [],
      tensor_post_acc_grad_hooks = None\<rparr>"

text \<open>
  Modelled from the spec: \<^verbatim>\<open>check_input_variables\<close> (torch/csrc/autograd/functions/utils.h)
  is not among the sources. The spec: "exactly one incoming gradient slot is expected";
  the call passes 1 as the number of arguments and 0 as the number that must be defined.
\<close>

definition check_input_variables :: "string \<Rightarrow> Tensor list \<Rightarrow> nat \<Rightarrow> nat \<Rightarrow> error + unit" where
  "check_input_variables name inputs args required_args =
     (if length inputs \<noteq> args then Inl (Wrong_Number_Of_Inputs name (length inputs) args)
      else if \<not> list_all defined (take required_args inputs)
        then Inl (Undefined_Input name)
      else Inr ())"

text \<open>
  Modelled from the spec: the clone of a tensor (\<^verbatim>\<open>at::Tensor::clone\<close>) is not among the
  sources. The spec: the clone is a copy, as opposed to sharing the storage. It
  allocates a storage with the same contents and is referenced once.
\<close>

definition clone :: "TensorImpl \<Rightarrow> memory \<Rightarrow> TensorImpl \<times> memory" where
  "clone t mem = (t\<lparr>storage := length mem, use_count := 1\<rparr>, mem @ [data mem t])"

text \<open>
  Modelled from the spec: the promotion of two scalar types, "to the wider/more precise
  type".
\<close>

definition promoteTypes :: "ScalarType \<Rightarrow> ScalarType \<Rightarrow> ScalarType" where
  "promoteTypes a b =
     (if a = Double \<or> b = Double then Double
      else if a = Float \<or> b = Float then Float
      else Half)"

text \<open>
  Modelled from the spec: \<^verbatim>\<open>accumulateGrad\<close> is defined in
  torch/csrc/autograd/functions/accumulate_grad.h, which is not among the sources. The
  spec (4.3, step 5): if \<^verbatim>\<open>.grad\<close> is empty the new gradient becomes \<^verbatim>\<open>.grad\<close>, cloned
  only if its reference count exceeds \<open>num_expected_refs\<close> and stolen without copying
  otherwise; if \<^verbatim>\<open>.grad\<close> holds a tensor the new contribution is added elementwise in
  place into the existing buffer, the type promoted to the wider of the two, and a shape
  mismatch is a fatal error; the assignment into the slot is made by the injected commit
  callback \<open>update_grad\<close>, exactly once.
\<close>

definition accumulateGrad ::
  "Tensor \<Rightarrow> TensorImpl \<Rightarrow> nat \<Rightarrow> (Tensor \<Rightarrow> 's \<Rightarrow> 's) \<Rightarrow> 's \<times> memory \<Rightarrow> error + ('s \<times> memory)" where
  "accumulateGrad variable_grad new_grad num_expected_refs update_grad st =
     (case variable_grad of
        None \<Rightarrow>
          if use_count new_grad \<le> num_expected_refs
          then Inr (update_grad (Some new_grad) (fst st), snd st)
          else (case clone new_grad (snd st) of
                  (c, mem') \<Rightarrow> Inr (update_grad (Some c) (fst st), mem'))
      | Some g \<Rightarrow>
          if sizes g \<noteq> sizes new_grad then Inl Shape_Mismatch
          else Inr (update_grad (Some (g\<lparr>dtype := promoteTypes (dtype g) (dtype new_grad)\<rparr>)) (fst st),
                    (snd st)[storage g := map2 (+) (data (snd st) g) (data (snd st) new_grad)]))"

text \<open>
  \<^verbatim>\<open>1 + !post_hooks().empty()\<close>, the argument that the source comments as
  \<^verbatim>\<open>num_expected_refs\<close>.
\<close>

definition num_expected_refs :: "AccumulateGrad \<Rightarrow> nat" where
  "num_expected_refs n = 1 + (if post_hooks n \<noteq> [] then 1 else 0)"

text \<open>
  The part of \<open>apply\<close> from the lock on. The commit callback
  \<^verbatim>\<open>[&grad](at::Tensor&& grad_update) { grad = std::move(grad_update); }\<close> assigns the
  slot and is logged. The lock guard lives until the function is left, so the unlock is
  the last event on both the returning and the throwing path.
\<close>

definition update_grad :: "Tensor \<Rightarrow> Variable \<times> event list \<Rightarrow> Variable \<times> event list" where
  "update_grad new_value st = ((fst st)\<lparr>grad := new_value\<rparr>, snd st @ [Grad_Update new_value])"

definition apply_locked ::
  "AccumulateGrad \<Rightarrow> TensorImpl \<Rightarrow> memory \<Rightarrow>
     (error + Tensor list) \<times> AccumulateGrad \<times> memory \<times> event list" where
  "apply_locked n new_grad mem =
     (case accumulateGrad (grad (variable n)) new_grad (num_expected_refs n) update_grad
             ((variable n, [Mutex_Lock]), mem) of
        Inl e \<Rightarrow> (Inl e, n, mem, [Mutex_Lock, Mutex_Unlock])
      | Inr ((v, ev), mem') \<Rightarrow>
          (case tensor_post_acc_grad_hooks n of
             None \<Rightarrow> (Inr [], n\<lparr>variable := v\<rparr>, mem', ev @ [Mutex_Unlock])
           | Some hook \<Rightarrow>
               (case hook (v, mem') of
                  (v', mem'') \<Rightarrow>
                    (Inr [], n\<lparr>variable := v'\<rparr>, mem'', ev @ [Hook_Call v, Mutex_Unlock]))))"

text \<open>
  \<open>apply n grads mem\<close> gives the result (the returned list, or the exception), the
  node and the memory after the call, and the events of the call.
\<close>

definition "apply" ::
  "AccumulateGrad \<Rightarrow> Tensor list \<Rightarrow> memory \<Rightarrow>
     (error + Tensor list) \<times> AccumulateGrad \<times> memory \<times> event list" where
  "apply n grads mem =
     (case check_input_variables ''AccumulateGrad'' grads 1 0 of
        Inl e \<Rightarrow> (Inl e, n, mem, [])
      | Inr _ \<Rightarrow>
          (case hd grads of
             None \<Rightarrow> (Inr [], n, mem, [])
           | Some new_grad \<Rightarrow>
               if grad_fn (variable n) \<noteq> None
               then (Inl (Logic_Error ''leaf variable has been moved into the graph interior''),
                     n, mem, [])
               else if \<not> requires_grad (variable n) then (Inr [], n, mem, [])
               else apply_locked n new_grad mem))"

definition result_of :: "'r \<times> 'n \<times> 'm \<times> 'e \<Rightarrow> 'r" where
  "result_of out = fst out"

definition node_of :: "'r \<times> 'n \<times> 'm \<times> 'e \<Rightarrow> 'n" where
  "node_of out = fst (snd out)"

definition memory_of :: "'r \<times> 'n \<times> 'm \<times> 'e \<Rightarrow> 'm" where
  "memory_of out = fst (snd (snd out))"

definition events_of :: "'r \<times> 'n \<times> 'm \<times> 'e \<Rightarrow> 'e" where
  "events_of out = snd (snd (snd out))"

text \<open>
  Whether every hook call of a trace lies outside the lock window; the first argument
  says whether the mutex is held at the start of the trace.
\<close>

fun hooks_outside_lock :: "bool \<Rightarrow> event list \<Rightarrow> bool" where
  "hooks_outside_lock held [] = True"
| "hooks_outside_lock held (Mutex_Lock # es) = hooks_outside_lock True es"
| "hooks_outside_lock held (Mutex_Unlock # es) = hooks_outside_lock False es"
| "hooks_outside_lock held (Grad_Update t # es) = hooks_outside_lock held es"
| "hooks_outside_lock held (Hook_Call v # es) = (\<not> held \<and> hooks_outside_lock held es)"

text \<open>
  The values that a call assigned to the \<^verbatim>\<open>.grad\<close> slot, in order.
\<close>

fun committed :: "event list \<Rightarrow> Tensor list" where
  "committed [] = []"
| "committed (Grad_Update t # es) = t # committed es"
| "committed (e # es) = committed es"


section \<open>test/cpp_extensions/open_registration_extension.cpp\<close>

text \<open>
  The counters of the extension that the add kernel and its probe use
  (\<^verbatim>\<open>static uint64_t add_counter\<close>, \<^verbatim>\<open>last_saved_value\<close>), both initially 0.
\<close>

record extension_state =
  add_counter :: "64 word"
  last_saved_value :: "64 word"

definition initial_extension_state :: extension_state where
  "initial_extension_state = \<lparr>add_counter = 0, last_saved_value = 0\<rparr>"

type_synonym TensorOptions = "ScalarType \<times> DeviceType"

definition options :: "TensorImpl \<Rightarrow> TensorOptions" where
  "options t = (dtype t, device t)"

definition numel :: "nat list \<Rightarrow> nat" where
  "numel dims = prod_list dims"

text \<open>
  Modelled from the spec: \<^verbatim>\<open>at::empty\<close> is not among the sources (for this device it
  reaches \<^verbatim>\<open>at::detail::empty_generic\<close> with the extension's allocator, which returns
  \<^verbatim>\<open>c10::alloc_cpu(nbytes)\<close>). The spec: "an uninitialized-but-correctly-shaped tensor".
  The elements of the new storage are whatever the allocated block held: \<open>junk i\<close> at
  position \<open>i\<close>.
\<close>

definition at_empty ::
  "nat list \<Rightarrow> TensorOptions \<Rightarrow> (nat \<Rightarrow> int) \<Rightarrow> memory \<Rightarrow> TensorImpl \<times> memory" where
  "at_empty dims opts junk mem =
     (\<lparr>storage = length mem, sizes = dims, dtype = fst opts, device = snd opts, use_count = 1\<rparr>,
      mem @ [map junk [0..<numel dims]])"

text \<open>A block of memory that holds zeros.\<close>

definition zero_block :: "nat \<Rightarrow> int" where
  "zero_block i = 0"

text \<open>
  \<^verbatim>\<open>custom_add_Tensor(self, other, alpha)\<close>: counts the call and returns
  \<^verbatim>\<open>at::empty(self.sizes(), self.options())\<close>.
\<close>

definition custom_add_Tensor ::
  "TensorImpl \<Rightarrow> TensorImpl \<Rightarrow> int \<Rightarrow> (nat \<Rightarrow> int) \<Rightarrow> extension_state \<times> memory \<Rightarrow>
     TensorImpl \<times> extension_state \<times> memory" where
  "custom_add_Tensor self other alpha junk st =
     (case at_empty (sizes self) (options self) junk (snd st) of
        (r, mem') \<Rightarrow> (r, (fst st)\<lparr>add_counter := add_counter (fst st) + 1\<rparr>, mem'))"

definition custom_add_called :: "extension_state \<Rightarrow> bool \<times> extension_state" where
  "custom_add_called st =
     (if add_counter st > last_saved_value st
      then (True, st\<lparr>last_saved_value := add_counter st\<rparr>)
      else (False, st))"

text \<open>
  The tensors that the copy kernel handles carry, besides the fields above, their
  strides, their storage offset and the answer of \<^verbatim>\<open>is_contiguous()\<close>.
\<close>

record StridedTensor = TensorImpl +
  strides :: "nat list"
  storage_offset :: nat
  is_contiguous :: bool

definition is_cpu :: "StridedTensor \<Rightarrow> bool" where
  "is_cpu t = (device t = CPU)"

text \<open>
  \<^verbatim>\<open>std::memcpy(dest, src, n)\<close> between the starts of two storages, counted in elements
  (the kernel has checked that both tensors have the same scalar type). The first \<open>n\<close>
  elements of the source block are written from the start of the destination block on.
  The block of a storage is as long as its list is when the call starts; when \<open>n\<close>
  exceeds the length of the destination block, the elements beyond that length are
  written past the end of the block (\<open>written_past_end\<close>), and the list of the
  destination shows them after the call. The call returns in every case.
\<close>

definition memcpy :: "memory \<Rightarrow> storage_id \<Rightarrow> storage_id \<Rightarrow> nat \<Rightarrow> memory" where
  "memcpy mem dest src n =
     mem[dest := take n (read_storage mem src) @ drop n (read_storage mem dest)]"

definition written_past_end :: "memory \<Rightarrow> storage_id \<Rightarrow> storage_id \<Rightarrow> nat \<Rightarrow> int list" where
  "written_past_end mem dest src n =
     drop (length (read_storage mem dest)) (take n (read_storage mem src))"

text \<open>
  \<^verbatim>\<open>unsafe_create_cpu_tensor_from_dummy_tensor\<close>: a new CPU tensor with the sizes,
  strides, storage offset and dtype of \<open>src\<close>, on a storage object that wraps the data
  pointer of the storage of \<open>src\<close> (with a deleter that does nothing): it aliases that
  storage. Sizes are natural numbers, so \<^verbatim>\<open>check_size_nonnegative\<close> passes.
\<close>

definition unsafe_create_cpu_tensor_from_dummy_tensor :: "StridedTensor \<Rightarrow> error + StridedTensor" where
  "unsafe_create_cpu_tensor_from_dummy_tensor src =
     (if device src \<noteq> PrivateUse1 then Inl (Torch_Check_Failed ''Only support dummy device.'')
      else Inr (src\<lparr>device := CPU, use_count := 1\<rparr>))"

definition convert_to_cpu_tensor :: "StridedTensor \<Rightarrow> error + StridedTensor" where
  "convert_to_cpu_tensor src =
     (if device src = PrivateUse1 then unsafe_create_cpu_tensor_from_dummy_tensor src
      else Inr src)"

text \<open>
  \<^verbatim>\<open>custom__copy_from(self, dst, non_blocking)\<close>. The copy between CPU tensors,
  \<^verbatim>\<open>cpu_dst.copy_(cpu_self)\<close>, is ATen's and is the parameter \<open>cpu_copy\<close>: from the
  destination, the source and the memory it gives the memory after the copy, or throws.
  The result is the returned tensor and the memory.
\<close>

definition custom__copy_from ::
  "(StridedTensor \<Rightarrow> StridedTensor \<Rightarrow> memory \<Rightarrow> error + memory) \<Rightarrow>
   StridedTensor \<Rightarrow> StridedTensor \<Rightarrow> bool \<Rightarrow> memory \<Rightarrow> error + (StridedTensor \<times> memory)" where
  "custom__copy_from cpu_copy self dst non_blocking mem =
     (if \<not> (is_cpu self \<or> device self = PrivateUse1)
        then Inl (Torch_Check_Failed ''Dummy test only allows copy from cpu -> dummy device.'')
      else if \<not> (is_cpu dst \<or> device dst = PrivateUse1)
        then Inl (Torch_Check_Failed ''Dummy test only allows copy from cpu -> dummy device.'')
      else if \<not> (sizes self = sizes dst)
        then Inl (Torch_Check_Failed ''self.sizes() == dst.sizes()'')
      else if \<not> (dtype self = dtype dst)
        then Inl (Torch_Check_Failed ''self.scalar_type() == dst.scalar_type()'')
      else if is_contiguous self \<and> is_contiguous dst then
        Inr (dst, memcpy mem (storage dst) (storage self) (length (read_storage mem (storage self))))
      else
        and_then (convert_to_cpu_tensor self) (\<lambda>cpu_self.
        and_then (convert_to_cpu_tensor dst) (\<lambda>cpu_dst.
        and_then (cpu_copy cpu_dst cpu_self mem) (\<lambda>mem'. Inr (dst, mem')))))"

definition custom__copy_from_and_resize ::
  "(StridedTensor \<Rightarrow> StridedTensor \<Rightarrow> memory \<Rightarrow> error + memory) \<Rightarrow>
   StridedTensor \<Rightarrow> StridedTensor \<Rightarrow> memory \<Rightarrow> error + (StridedTensor \<times> memory)" where
  "custom__copy_from_and_resize cpu_copy self dst mem = custom__copy_from cpu_copy self dst False mem"

text \<open>
  An instance of the parameter \<open>cpu_copy\<close> for the examples below: the elementwise
  copy between two strided tensors of the same sizes, which writes one element of the
  destination for each element of the source. \<open>element_offsets\<close> lists the
  positions of the elements of a tensor in its storage, in row-major order of the indices.
\<close>

fun element_offsets :: "nat list \<Rightarrow> nat list \<Rightarrow> nat \<Rightarrow> nat list" where
  "element_offsets (n # ns) (s # ss) base =
     concat (map (\<lambda>i. element_offsets ns ss (base + i * s)) [0..<n])"
| "element_offsets ns ss base = [base]"

definition strided_copy :: "StridedTensor \<Rightarrow> StridedTensor \<Rightarrow> memory \<Rightarrow> error + memory" where
  "strided_copy dst src mem =
     Inr (fold (\<lambda>(to, from) m.
                  m[storage dst := (read_storage m (storage dst))
                                     [to := read_storage mem (storage src) ! from]])
            (zip (element_offsets (sizes dst) (strides dst) (storage_offset dst))
                 (element_offsets (sizes src) (strides src) (storage_offset src)))
            mem)"

text \<open>
  The precondition of the copy kernel: both tensors on the CPU or on PrivateUse1, with
  equal sizes and equal scalar types.
\<close>

definition copy_precondition :: "StridedTensor \<Rightarrow> StridedTensor \<Rightarrow> bool" where
  "copy_precondition self dst =
     ((device self = CPU \<or> device self = PrivateUse1) \<and>
      (device dst = CPU \<or> device dst = PrivateUse1) \<and>
      sizes self = sizes dst \<and> dtype self = dtype dst)"

text \<open>
  The CPU view of a tensor that the strided path copies through: the tensor itself on the
  CPU, a CPU tensor on the same storage for PrivateUse1.
\<close>

definition cpu_view :: "StridedTensor \<Rightarrow> StridedTensor" where
  "cpu_view t = (if device t = PrivateUse1 then t\<lparr>device := CPU, use_count := 1\<rparr> else t)"

text \<open>
  The two \<^verbatim>\<open>TORCH_LIBRARY_IMPL(aten, PrivateUse1, m)\<close> blocks: the operator names and
  the functions registered for them, unboxed or through
  \<^verbatim>\<open>makeFromBoxedFunction\<close>, in the order of the file.
\<close>

datatype kernel = Unboxed string | Boxed string

definition aten_PrivateUse1_impl :: "(string \<times> kernel) list" where
  "aten_PrivateUse1_impl =
     [(''abs.out'', Unboxed ''custom_abs_out''),
      (''add.Tensor'', Unboxed ''custom_add_Tensor''),
      (''empty.memory_format'', Unboxed ''custom_empty_symint''),
      (''fill_.Scalar'', Unboxed ''custom_fill__scalar''),
      (''_copy_from'', Unboxed ''custom__copy_from''),
      (''_copy_from_and_resize'', Unboxed ''custom__copy_from_and_resize''),
      (''empty_strided'', Unboxed ''custom_empty_strided''),
      (''set_.source_Storage'', Unboxed ''custom_set_source_Storage''),
      (''set_.source_Storage_storage_offset'', Unboxed ''custom_set_source_Storage_storage_offset''),
      (''resize_'', Unboxed ''custom_resize_''),
      (''as_strided'', Unboxed ''at::native::as_strided_tensorimpl''),
      (''quantize_per_tensor'', Unboxed ''at::native::quantize_per_tensor''),
      (''_fused_sdp_choice'', Unboxed ''_fused_sdp_choice_privateuse1''),
      (''_scaled_dot_product_fused_attention_overrideable'',
         Unboxed ''custom_scaled_dot_product_fused_attention_overrideable''),
      (''_scaled_dot_product_fused_attention_overrideable_backward'',
         Unboxed ''custom_scaled_dot_product_fused_attention_overrideable_backward''),
      (''sub.Tensor'', Boxed ''custom_cpu_fallback''),
      (''_foreach_add.List'', Boxed ''custom_cpu_fallback''),
      (''_fused_adamw_'', Boxed ''custom_cpu_fallback''),
      (''index.Tensor'', Boxed ''custom_cpu_fallback''),
      (''triu_indices'', Boxed ''custom_cpu_fallback'')]"

text \<open>
  Modelled from the spec: the Dispatcher is not among the sources. The spec (4.2):
  \<open>dispatch\<close> looks up (operator, key) in the table; here the key is PrivateUse1 and
  the table is the one above. \<open>None\<close> stands for the operator having no kernel
  registered for this backend.
\<close>

definition dispatch_PrivateUse1 :: "string \<Rightarrow> kernel option" where
  "dispatch_PrivateUse1 operator_name = map_of aten_PrivateUse1_impl operator_name"

text \<open>
  \<^verbatim>\<open>PrivateGeneratorImpl(device_index)\<close> sets the device of the generator to
  PrivateUse1 with the given index (a \<^verbatim>\<open>c10::DeviceIndex\<close>, 8 bits);
  \<^verbatim>\<open>make_generator_privateuse1\<close> makes one.
\<close>

record Generator =
  generator_device :: DeviceType
  generator_index :: "8 word"

definition make_generator_privateuse1 :: "8 word \<Rightarrow> Generator" where
  "make_generator_privateuse1 device_index =
     \<lparr>generator_device = PrivateUse1, generator_index = device_index\<rparr>"

text \<open>
  The registry slot for the generator factory of PrivateUse1: empty, or the registered
  factory.
\<close>

type_synonym generator_registry = "(8 word \<Rightarrow> Generator) option"

text \<open>
  Modelled from the spec: the macro \<^verbatim>\<open>REGISTER_GENERATOR_PRIVATEUSE1\<close> and the registry
  behind it (ATen/core/GeneratorForPrivateuseone.h) are not among the sources. The spec
  (4.4 and 8.8): the generator factory is registered exactly once; a second registration
  attempt fails, observably, and the originally registered factory remains the one
  returned by later lookups.
\<close>

definition REGISTER_GENERATOR_PRIVATEUSE1 ::
  "(8 word \<Rightarrow> Generator) \<Rightarrow> generator_registry \<Rightarrow> (error + unit) \<times> generator_registry" where
  "REGISTER_GENERATOR_PRIVATEUSE1 f registry =
     (case registry of
        None \<Rightarrow> (Inr (), Some f)
      | Some g \<Rightarrow> (Inl Generator_Already_Registered, registry))"

definition register_generator_first ::
  "generator_registry \<Rightarrow> (error + unit) \<times> generator_registry" where
  "register_generator_first registry =
     REGISTER_GENERATOR_PRIVATEUSE1 make_generator_privateuse1 registry"

definition register_generator_second ::
  "generator_registry \<Rightarrow> (error + unit) \<times> generator_registry" where
  "register_generator_second registry =
     REGISTER_GENERATOR_PRIVATEUSE1 make_generator_privateuse1 registry"

section \<open>Properties\<close>

subsection \<open>Deadlock detection switch\<close>

text \<open>
  C9. The switch is a presence check of the environment variable
  TORCH_DISABLE_DEADLOCK_DETECTION: \<open>disable_detection\<close> holds exactly when the
  environment has an entry of that name, whatever its value; and while the variable is
  present every call of \<open>SetPythonGILHooks\<close> returns normally and leaves the stored
  hooks pointer as it was, for every argument and every stored pointer.
\<close>

theorem SetPythonGILHooks_disabled_noop:
  "(disable_detection env \<longleftrightarrow> ''TORCH_DISABLE_DEADLOCK_DETECTION'' \<in> fst ` set env) \<and>
   (''TORCH_DISABLE_DEADLOCK_DETECTION'' \<in> fst ` set env \<longrightarrow>
      (\<forall>hooks python_gil_hooks.
         SetPythonGILHooks env hooks python_gil_hooks = Inr python_gil_hooks))"
  by (simp add: disable_detection_def getenv_def SetPythonGILHooks_def map_of_eq_None_iff)

theorem SetPythonGILHooks_disabled_noop_witness:
  "''TORCH_DISABLE_DEADLOCK_DETECTION'' \<in> fst ` set [(''TORCH_DISABLE_DEADLOCK_DETECTION'', '''')] \<and>
   disable_detection [(''TORCH_DISABLE_DEADLOCK_DETECTION'', '''')] \<and>
   SetPythonGILHooks [(''TORCH_DISABLE_DEADLOCK_DETECTION'', '''')] (Some 1) (Some 2) = Inr (Some 2)"
  using SetPythonGILHooks_disabled_noop [of "[(''TORCH_DISABLE_DEADLOCK_DETECTION'', '''')]"]
  by simp

subsection \<open>Default accelerator\<close>

lemma getAccelerator_privateuse1:
  "is_privateuse1_backend_registered ctx \<Longrightarrow> getAccelerator ctx checked = Inr (Some PrivateUse1)"
  by (simp add: getAccelerator_def)

lemma getAccelerator_conflict:
  "\<not> is_privateuse1_backend_registered ctx \<Longrightarrow> 2 \<le> length (detected ctx) \<Longrightarrow>
   getAccelerator ctx checked = Inl (Cannot_Have_With_Other_Accelerators (detected ctx ! 1))"
  by (cases "hasCUDA ctx"; cases "hasMTIA ctx"; cases "hasXPU ctx"; cases "hasHIP ctx";
      cases "hasMPS ctx")
     (simp_all add: getAccelerator_def detected_def DETECT_AND_ASSIGN_ACCELERATOR_def and_then_def)

lemma getAccelerator_single:
  "\<not> is_privateuse1_backend_registered ctx \<Longrightarrow> getAccelerator ctx checked = Inr (Some d) \<Longrightarrow>
   detected ctx = [d]"
  by (cases "hasCUDA ctx"; cases "hasMTIA ctx"; cases "hasXPU ctx"; cases "hasHIP ctx";
      cases "hasMPS ctx")
     (auto simp: getAccelerator_def detected_def DETECT_AND_ASSIGN_ACCELERATOR_def and_then_def
           split: if_splits)

lemma getAccelerator_one_detected:
  "\<not> is_privateuse1_backend_registered ctx \<Longrightarrow> detected ctx = [d] \<Longrightarrow>
   getAccelerator ctx checked = Inr (Some d)"
  by (cases "hasCUDA ctx"; cases "hasMTIA ctx"; cases "hasXPU ctx"; cases "hasHIP ctx";
      cases "hasMPS ctx")
     (auto simp: getAccelerator_def detected_def DETECT_AND_ASSIGN_ACCELERATOR_def and_then_def
           split: if_splits)

text \<open>
  C7. \<open>getAccelerator\<close> never answers with one of several built-in accelerators: with
  no PrivateUse1 backend registered it throws as soon as a second one of CUDA, MTIA, XPU,
  HIP, MPS is detected (naming that second device), and an answer \<open>d\<close> means \<open>d\<close> is
  the only built-in accelerator detected. PrivateUse1 may coexist with any of them:
  whenever a PrivateUse1 backend is registered the answer is PrivateUse1, whatever else is
  detected (two or more built-in accelerators included) and whether or not the call is
  checked.
\<close>

theorem getAccelerator_at_most_one:
  "(is_privateuse1_backend_registered ctx \<longrightarrow>
      getAccelerator ctx checked = Inr (Some PrivateUse1)) \<and>
   (\<not> is_privateuse1_backend_registered ctx \<and> 2 \<le> length (detected ctx) \<longrightarrow>
      getAccelerator ctx checked = Inl (Cannot_Have_With_Other_Accelerators (detected ctx ! 1))) \<and>
   (\<not> is_privateuse1_backend_registered ctx \<longrightarrow>
      (getAccelerator ctx checked = Inr (Some d) \<longleftrightarrow> detected ctx = [d]))"
  using getAccelerator_privateuse1 getAccelerator_conflict getAccelerator_single
    getAccelerator_one_detected by blast

theorem getAccelerator_at_most_one_witness:
  "is_privateuse1_backend_registered
     \<lparr>hasCUDA = True, hasMTIA = False, hasXPU = True, hasHIP = False, hasMPS = False,
      is_privateuse1_backend_registered = True\<rparr> \<and>
   getAccelerator
     \<lparr>hasCUDA = True, hasMTIA = False, hasXPU = True, hasHIP = False, hasMPS = False,
      is_privateuse1_backend_registered = True\<rparr> True = Inr (Some PrivateUse1) \<and>
   2 \<le> length (detected
     \<lparr>hasCUDA = True, hasMTIA = False, hasXPU = True, hasHIP = False, hasMPS = False,
      is_privateuse1_backend_registered = False\<rparr>) \<and>
   getAccelerator
     \<lparr>hasCUDA = True, hasMTIA = False, hasXPU = True, hasHIP = False, hasMPS = False,
      is_privateuse1_backend_registered = False\<rparr> False =
     Inl (Cannot_Have_With_Other_Accelerators XPU) \<and>
   detected
     \<lparr>hasCUDA = False, hasMTIA = False, hasXPU = False, hasHIP = True, hasMPS = False,
      is_privateuse1_backend_registered = False\<rparr> = [HIP] \<and>
   getAccelerator
     \<lparr>hasCUDA = False, hasMTIA = False, hasXPU = False, hasHIP = True, hasMPS = False,
      is_privateuse1_backend_registered = False\<rparr> True = Inr (Some HIP)"
  using
    getAccelerator_at_most_one [of
      "\<lparr>hasCUDA = True, hasMTIA = False, hasXPU = True, hasHIP = False, hasMPS = False,
        is_privateuse1_backend_registered = True\<rparr>" True HIP]
    getAccelerator_at_most_one [of
      "\<lparr>hasCUDA = True, hasMTIA = False, hasXPU = True, hasHIP = False, hasMPS = False,
        is_privateuse1_backend_registered = False\<rparr>" False HIP]
    getAccelerator_at_most_one [of
      "\<lparr>hasCUDA = False, hasMTIA = False, hasXPU = False, hasHIP = True, hasMPS = False,
        is_privateuse1_backend_registered = False\<rparr>" True HIP]
  by (simp add: detected_def)

subsection \<open>Gradient accumulation\<close>

lemma apply_reaches_locked:
  "grad_fn (variable n) = None \<Longrightarrow> requires_grad (variable n) \<Longrightarrow>
   apply n [Some g] mem = apply_locked n g mem"
  by (simp add: apply_def check_input_variables_def)

lemma apply_locked_steal:
  "grad (variable n) = None \<Longrightarrow> use_count g \<le> num_expected_refs n \<Longrightarrow>
   committed (events_of (apply_locked n g mem)) = [Some g] \<and>
   result_of (apply_locked n g mem) = Inr [] \<and>
   (tensor_post_acc_grad_hooks n = None \<longrightarrow>
      apply_locked n g mem =
        (Inr [], n\<lparr>variable := (variable n)\<lparr>grad := Some g\<rparr>\<rparr>, mem,
         [Mutex_Lock, Grad_Update (Some g), Mutex_Unlock]))"
  by (simp add: apply_locked_def accumulateGrad_def update_grad_def events_of_def result_of_def
      split: option.splits prod.splits)

lemma apply_locked_clone:
  "grad (variable n) = None \<Longrightarrow> num_expected_refs n < use_count g \<Longrightarrow>
   committed (events_of (apply_locked n g mem)) = [Some (g\<lparr>storage := length mem, use_count := 1\<rparr>)] \<and>
   result_of (apply_locked n g mem) = Inr [] \<and>
   (tensor_post_acc_grad_hooks n = None \<longrightarrow>
      apply_locked n g mem =
        (Inr [], n\<lparr>variable := (variable n)\<lparr>grad := Some (g\<lparr>storage := length mem, use_count := 1\<rparr>)\<rparr>\<rparr>,
         mem @ [data mem g],
         [Mutex_Lock, Grad_Update (Some (g\<lparr>storage := length mem, use_count := 1\<rparr>)), Mutex_Unlock]))"
  by (simp add: apply_locked_def accumulateGrad_def update_grad_def events_of_def result_of_def
      clone_def split: option.splits prod.splits)

lemma clone_fresh:
  "storage g < length mem \<Longrightarrow>
   storage (g\<lparr>storage := length mem, use_count := 1\<rparr>) \<noteq> storage g \<and>
   data (mem @ [data mem g]) (g\<lparr>storage := length mem, use_count := 1\<rparr>) = data mem g \<and>
   data (mem @ [data mem g]) g = data mem g"
  by (simp add: data_def read_storage_def nth_append)

text \<open>
  C1 as stated fails on the threshold: a registered post-accumulation hook
  (\<^verbatim>\<open>tensor_post_acc_grad_hooks()\<close>) does not raise it. With such a hook, no post
  hooks of the node and an incoming gradient referenced twice, the threshold is 1 and the
  gradient is cloned, not stolen.
\<close>

theorem apply_post_acc_hook_threshold_counterexample:
  "tensor_post_acc_grad_hooks
     \<lparr>sequence_nr = UINT64_MAX,
      variable = \<lparr>grad_fn = None, requires_grad = True, grad = None\<rparr>,
      post_hooks = [], tensor_post_acc_grad_hooks = Some id\<rparr> \<noteq> None \<and>
   num_expected_refs
     \<lparr>sequence_nr = UINT64_MAX,
      variable = \<lparr>grad_fn = None, requires_grad = True, grad = None\<rparr>,
      post_hooks = [], tensor_post_acc_grad_hooks = Some id\<rparr> = 1 \<and>
   committed (events_of (apply
     \<lparr>sequence_nr = UINT64_MAX,
      variable = \<lparr>grad_fn = None, requires_grad = True, grad = None\<rparr>,
      post_hooks = [], tensor_post_acc_grad_hooks = Some id\<rparr>
     [Some \<lparr>storage = 0, sizes = [3], dtype = Float, device = CPU, use_count = 2\<rparr>]
     [[1, 1, 1]])) =
     [Some \<lparr>storage = 1, sizes = [3], dtype = Float, device = CPU, use_count = 1\<rparr>] \<and>
   memory_of (apply
     \<lparr>sequence_nr = UINT64_MAX,
      variable = \<lparr>grad_fn = None, requires_grad = True, grad = None\<rparr>,
      post_hooks = [], tensor_post_acc_grad_hooks = Some id\<rparr>
     [Some \<lparr>storage = 0, sizes = [3], dtype = Float, device = CPU, use_count = 2\<rparr>]
     [[1, 1, 1]]) = [[1, 1, 1], [1, 1, 1]]"
  by (simp add: apply_def check_input_variables_def apply_locked_def accumulateGrad_def
      num_expected_refs_def update_grad_def clone_def data_def read_storage_def events_of_def
      memory_of_def)

text \<open>
  C1, amended. When the leaf's \<^verbatim>\<open>.grad\<close> slot is empty (and the call reaches the merge:
  the gradient is defined, the leaf has no producing function and requires gradients), the
  threshold \<open>num_expected_refs\<close> is 1, plus 1 if the node has function post hooks
  (\<^verbatim>\<open>post_hooks()\<close>, the hooks that the engine runs after the node); the hook of
  \<^verbatim>\<open>tensor_post_acc_grad_hooks()\<close> does not enter it. If the reference count of the
  incoming gradient is at most the threshold, the one value committed to \<^verbatim>\<open>.grad\<close>
  is the incoming tensor itself, so it has the same storage, and nothing is allocated. If
  the reference count exceeds the threshold, the one value committed is a clone: a
  tensor on a newly allocated storage, different from the storage of the incoming
  gradient, with the same contents.
\<close>

theorem apply_clone_or_steal:
  assumes "grad_fn (variable n) = None" and "requires_grad (variable n)"
    and "grad (variable n) = None"
  shows "num_expected_refs n = 1 + (if post_hooks n = [] then 0 else 1) \<and>
    num_expected_refs (n\<lparr>tensor_post_acc_grad_hooks := h\<rparr>) = num_expected_refs n \<and>
    (use_count g \<le> num_expected_refs n \<longrightarrow>
       result_of (apply n [Some g] mem) = Inr [] \<and>
       committed (events_of (apply n [Some g] mem)) = [Some g] \<and>
       (tensor_post_acc_grad_hooks n = None \<longrightarrow>
          grad (variable (node_of (apply n [Some g] mem))) = Some g \<and>
          memory_of (apply n [Some g] mem) = mem)) \<and>
    (num_expected_refs n < use_count g \<longrightarrow>
       result_of (apply n [Some g] mem) = Inr [] \<and>
       committed (events_of (apply n [Some g] mem)) = [Some (fst (clone g mem))] \<and>
       fst (clone g mem) = g\<lparr>storage := length mem, use_count := 1\<rparr> \<and>
       (storage g < length mem \<longrightarrow>
          storage (fst (clone g mem)) \<noteq> storage g \<and>
          data (snd (clone g mem)) (fst (clone g mem)) = data mem g) \<and>
       (tensor_post_acc_grad_hooks n = None \<longrightarrow>
          grad (variable (node_of (apply n [Some g] mem))) = Some (fst (clone g mem)) \<and>
          memory_of (apply n [Some g] mem) = snd (clone g mem)))"
proof -
  have eq: "apply n [Some g] mem = apply_locked n g mem"
    using assms(1,2) by (rule apply_reaches_locked)
  have k: "num_expected_refs n = 1 + (if post_hooks n = [] then 0 else 1)"
    "num_expected_refs (n\<lparr>tensor_post_acc_grad_hooks := h\<rparr>) = num_expected_refs n"
    by (simp_all add: num_expected_refs_def)
  have c: "fst (clone g mem) = g\<lparr>storage := length mem, use_count := 1\<rparr>"
    "snd (clone g mem) = mem @ [data mem g]"
    by (simp_all add: clone_def)
  show ?thesis
    using apply_locked_steal [OF assms(3), of g mem] apply_locked_clone [OF assms(3), of g mem]
      clone_fresh [of g mem]
    unfolding eq c
    by (auto simp: k node_of_def memory_of_def)
qed

theorem apply_clone_or_steal_witness:
  "grad_fn (variable (new_AccumulateGrad \<lparr>grad_fn = None, requires_grad = True, grad = None\<rparr>)) = None \<and>
   requires_grad (variable (new_AccumulateGrad \<lparr>grad_fn = None, requires_grad = True, grad = None\<rparr>)) \<and>
   grad (variable (new_AccumulateGrad \<lparr>grad_fn = None, requires_grad = True, grad = None\<rparr>)) = None \<and>
   tensor_post_acc_grad_hooks (new_AccumulateGrad \<lparr>grad_fn = None, requires_grad = True, grad = None\<rparr>) = None \<and>
   num_expected_refs (new_AccumulateGrad \<lparr>grad_fn = None, requires_grad = True, grad = None\<rparr>) = 1 \<and>
   grad (variable (node_of (apply (new_AccumulateGrad \<lparr>grad_fn = None, requires_grad = True, grad = None\<rparr>)
     [Some \<lparr>storage = 0, sizes = [3], dtype = Float, device = CPU, use_count = 1\<rparr>] [[1, 1, 1]])))
     = Some \<lparr>storage = 0, sizes = [3], dtype = Float, device = CPU, use_count = 1\<rparr> \<and>
   memory_of (apply (new_AccumulateGrad \<lparr>grad_fn = None, requires_grad = True, grad = None\<rparr>)
     [Some \<lparr>storage = 0, sizes = [3], dtype = Float, device = CPU, use_count = 1\<rparr>] [[1, 1, 1]])
     = [[1, 1, 1]] \<and>
   grad (variable (node_of (apply (new_AccumulateGrad \<lparr>grad_fn = None, requires_grad = True, grad = None\<rparr>)
     [Some \<lparr>storage = 0, sizes = [3], dtype = Float, device = CPU, use_count = 2\<rparr>] [[1, 1, 1]])))
     = Some \<lparr>storage = 1, sizes = [3], dtype = Float, device = CPU, use_count = 1\<rparr> \<and>
   memory_of (apply (new_AccumulateGrad \<lparr>grad_fn = None, requires_grad = True, grad = None\<rparr>)
     [Some \<lparr>storage = 0, sizes = [3], dtype = Float, device = CPU, use_count = 2\<rparr>] [[1, 1, 1]])
     = [[1, 1, 1], [1, 1, 1]] \<and>
   num_expected_refs
     \<lparr>sequence_nr = UINT64_MAX,
      variable = \<lparr>grad_fn = None, requires_grad = True, grad = None\<rparr>,
      post_hooks = [0], tensor_post_acc_grad_hooks = None\<rparr> = 2 \<and>
   grad (variable (node_of (apply
     \<lparr>sequence_nr = UINT64_MAX,
      variable = \<lparr>grad_fn = None, requires_grad = True, grad = None\<rparr>,
      post_hooks = [0], tensor_post_acc_grad_hooks = None\<rparr>
     [Some \<lparr>storage = 0, sizes = [3], dtype = Float, device = CPU, use_count = 2\<rparr>] [[1, 1, 1]])))
     = Some \<lparr>storage = 0, sizes = [3], dtype = Float, device = CPU, use_count = 2\<rparr>"
proof -
  have h: "grad_fn (variable (new_AccumulateGrad \<lparr>grad_fn = None, requires_grad = True, grad = None\<rparr>)) = None"
    "requires_grad (variable (new_AccumulateGrad \<lparr>grad_fn = None, requires_grad = True, grad = None\<rparr>))"
    "grad (variable (new_AccumulateGrad \<lparr>grad_fn = None, requires_grad = True, grad = None\<rparr>)) = None"
    by (simp_all add: new_AccumulateGrad_def)
  have e: "tensor_post_acc_grad_hooks (new_AccumulateGrad \<lparr>grad_fn = None, requires_grad = True, grad = None\<rparr>) = None"
    "post_hooks (new_AccumulateGrad \<lparr>grad_fn = None, requires_grad = True, grad = None\<rparr>) = []"
    by (simp_all add: new_AccumulateGrad_def)
  show ?thesis
    using h
      apply_clone_or_steal [OF h, of None
        "\<lparr>storage = 0, sizes = [3], dtype = Float, device = CPU, use_count = 1\<rparr>" "[[1, 1, 1]]"]
      apply_clone_or_steal [OF h, of None
        "\<lparr>storage = 0, sizes = [3], dtype = Float, device = CPU, use_count = 2\<rparr>" "[[1, 1, 1]]"]
      apply_clone_or_steal [of
        "\<lparr>sequence_nr = UINT64_MAX,
          variable = \<lparr>grad_fn = None, requires_grad = True, grad = None\<rparr>,
          post_hooks = [0], tensor_post_acc_grad_hooks = None\<rparr>" None
        "\<lparr>storage = 0, sizes = [3], dtype = Float, device = CPU, use_count = 2\<rparr>" "[[1, 1, 1]]"]
    by (simp add: e clone_def data_def read_storage_def)
qed

text \<open>
  C2. A call whose single incoming gradient slot is undefined, and a call on a leaf (a
  variable without producing function) that does not require gradients, return normally
  with the empty list, leave the node (its \<^verbatim>\<open>.grad\<close> slot included) and the memory as
  they were, and take no lock: neither is an error.
\<close>

theorem apply_noop:
  "apply n [None] mem = (Inr [], n, mem, []) \<and>
   (\<not> requires_grad (variable n) \<and> grad_fn (variable n) = None \<longrightarrow>
      apply n [g] mem = (Inr [], n, mem, []))"
  by (simp add: apply_def check_input_variables_def split: option.splits)

theorem apply_noop_witness:
  "\<not> requires_grad (variable
       \<lparr>sequence_nr = UINT64_MAX,
        variable = \<lparr>grad_fn = None, requires_grad = False,
          grad = Some \<lparr>storage = 1, sizes = [3], dtype = Float, device = CPU, use_count = 1\<rparr>\<rparr>,
        post_hooks = [], tensor_post_acc_grad_hooks = None\<rparr>) \<and>
   grad_fn (variable
       \<lparr>sequence_nr = UINT64_MAX,
        variable = \<lparr>grad_fn = None, requires_grad = False,
          grad = Some \<lparr>storage = 1, sizes = [3], dtype = Float, device = CPU, use_count = 1\<rparr>\<rparr>,
        post_hooks = [], tensor_post_acc_grad_hooks = None\<rparr>) = None \<and>
   apply
     \<lparr>sequence_nr = UINT64_MAX,
      variable = \<lparr>grad_fn = None, requires_grad = False,
        grad = Some \<lparr>storage = 1, sizes = [3], dtype = Float, device = CPU, use_count = 1\<rparr>\<rparr>,
      post_hooks = [], tensor_post_acc_grad_hooks = None\<rparr>
     [Some \<lparr>storage = 0, sizes = [3], dtype = Float, device = CPU, use_count = 1\<rparr>]
     [[1, 1, 1], [5, 5, 5]] =
   (Inr [],
     \<lparr>sequence_nr = UINT64_MAX,
      variable = \<lparr>grad_fn = None, requires_grad = False,
        grad = Some \<lparr>storage = 1, sizes = [3], dtype = Float, device = CPU, use_count = 1\<rparr>\<rparr>,
      post_hooks = [], tensor_post_acc_grad_hooks = None\<rparr>,
     [[1, 1, 1], [5, 5, 5]], [])"
  using apply_noop [of
     "\<lparr>sequence_nr = UINT64_MAX,
      variable = \<lparr>grad_fn = None, requires_grad = False,
        grad = Some \<lparr>storage = 1, sizes = [3], dtype = Float, device = CPU, use_count = 1\<rparr>\<rparr>,
      post_hooks = [], tensor_post_acc_grad_hooks = None\<rparr>"
     "[[1, 1, 1], [5, 5, 5]]"
     "Some \<lparr>storage = 0, sizes = [3], dtype = Float, device = CPU, use_count = 1\<rparr>"]
  by simp

text \<open>
  C3. With a defined incoming gradient, a leaf that has a producing function makes
  \<open>apply\<close> throw the logic error, whatever else holds of the leaf; the node, its
  \<^verbatim>\<open>.grad\<close> slot and the memory are as before the call, and nothing was locked or
  committed.
\<close>

theorem apply_non_leaf_throws:
  "grad_fn (variable n) \<noteq> None \<longrightarrow>
   apply n [Some g] mem =
     (Inl (Logic_Error ''leaf variable has been moved into the graph interior''), n, mem, [])"
  by (simp add: apply_def check_input_variables_def)

theorem apply_non_leaf_throws_witness:
  "grad_fn (variable
       \<lparr>sequence_nr = UINT64_MAX,
        variable = \<lparr>grad_fn = Some 4, requires_grad = True, grad = None\<rparr>,
        post_hooks = [], tensor_post_acc_grad_hooks = None\<rparr>) \<noteq> None \<and>
   apply
     \<lparr>sequence_nr = UINT64_MAX,
      variable = \<lparr>grad_fn = Some 4, requires_grad = True, grad = None\<rparr>,
      post_hooks = [], tensor_post_acc_grad_hooks = None\<rparr>
     [Some \<lparr>storage = 0, sizes = [3], dtype = Float, device = CPU, use_count = 1\<rparr>]
     [[1, 1, 1]] =
   (Inl (Logic_Error ''leaf variable has been moved into the graph interior''),
     \<lparr>sequence_nr = UINT64_MAX,
      variable = \<lparr>grad_fn = Some 4, requires_grad = True, grad = None\<rparr>,
      post_hooks = [], tensor_post_acc_grad_hooks = None\<rparr>,
     [[1, 1, 1]], [])"
  using apply_non_leaf_throws [of
     "\<lparr>sequence_nr = UINT64_MAX,
      variable = \<lparr>grad_fn = Some 4, requires_grad = True, grad = None\<rparr>,
      post_hooks = [], tensor_post_acc_grad_hooks = None\<rparr>"
     "\<lparr>storage = 0, sizes = [3], dtype = Float, device = CPU, use_count = 1\<rparr>"
     "[[1, 1, 1]]"]
  by simp

text \<open>
  C4 as stated fails: the lock guard is a local of the whole function body, so the mutex
  is still held when the hook is called.
\<close>

theorem apply_hook_outside_lock_counterexample:
  "apply
     \<lparr>sequence_nr = UINT64_MAX,
      variable = \<lparr>grad_fn = None, requires_grad = True, grad = None\<rparr>,
      post_hooks = [], tensor_post_acc_grad_hooks = Some id\<rparr>
     [Some \<lparr>storage = 0, sizes = [3], dtype = Float, device = CPU, use_count = 1\<rparr>]
     [[1, 1, 1]] =
   (Inr [],
     \<lparr>sequence_nr = UINT64_MAX,
      variable = \<lparr>grad_fn = None, requires_grad = True,
        grad = Some \<lparr>storage = 0, sizes = [3], dtype = Float, device = CPU, use_count = 1\<rparr>\<rparr>,
      post_hooks = [], tensor_post_acc_grad_hooks = Some id\<rparr>,
     [[1, 1, 1]],
     [Mutex_Lock,
      Grad_Update (Some \<lparr>storage = 0, sizes = [3], dtype = Float, device = CPU, use_count = 1\<rparr>),
      Hook_Call \<lparr>grad_fn = None, requires_grad = True,
        grad = Some \<lparr>storage = 0, sizes = [3], dtype = Float, device = CPU, use_count = 1\<rparr>\<rparr>,
      Mutex_Unlock]) \<and>
   \<not> hooks_outside_lock False (events_of (apply
     \<lparr>sequence_nr = UINT64_MAX,
      variable = \<lparr>grad_fn = None, requires_grad = True, grad = None\<rparr>,
      post_hooks = [], tensor_post_acc_grad_hooks = Some id\<rparr>
     [Some \<lparr>storage = 0, sizes = [3], dtype = Float, device = CPU, use_count = 1\<rparr>]
     [[1, 1, 1]]))"
  by (simp add: apply_def check_input_variables_def apply_locked_def accumulateGrad_def
      num_expected_refs_def update_grad_def events_of_def)

text \<open>
  C4, amended. For a leaf without producing function that requires gradients and has a
  post-accumulation hook, a call with a defined gradient that starts from an empty slot
  returns normally; and whenever the call returns normally, it returns the empty list and
  its events are, in this order: the lock, the one commit to \<^verbatim>\<open>.grad\<close>, the call of the
  hook with the leaf as updated by that commit, the unlock. So the hook runs after the
  commit and before \<open>apply\<close> returns, inside the lock window of the node's mutex;
  what the hook leaves is what the call leaves.
\<close>

theorem apply_hook_after_commit:
  assumes "grad_fn (variable n) = None" and "requires_grad (variable n)"
    and "tensor_post_acc_grad_hooks n = Some hook"
  shows "(grad (variable n) = None \<longrightarrow> result_of (apply n [Some g] mem) = Inr []) \<and>
    (\<forall>rs. result_of (apply n [Some g] mem) = Inr rs \<longrightarrow>
       rs = [] \<and>
       (\<exists>t mem1.
          events_of (apply n [Some g] mem) =
            [Mutex_Lock, Grad_Update t, Hook_Call ((variable n)\<lparr>grad := t\<rparr>), Mutex_Unlock] \<and>
          hook ((variable n)\<lparr>grad := t\<rparr>, mem1) =
            (variable (node_of (apply n [Some g] mem)), memory_of (apply n [Some g] mem))) \<and>
       \<not> hooks_outside_lock False (events_of (apply n [Some g] mem)))"
proof -
  have eq: "apply n [Some g] mem = apply_locked n g mem"
    using assms(1,2) by (simp add: apply_def check_input_variables_def)
  have first: "grad (variable n) = None \<longrightarrow> result_of (apply_locked n g mem) = Inr []"
    using assms(3)
    by (simp add: apply_locked_def accumulateGrad_def update_grad_def result_of_def clone_def
        split: prod.splits)
  have rest: "rs = [] \<and>
       (\<exists>t mem1.
          events_of (apply_locked n g mem) =
            [Mutex_Lock, Grad_Update t, Hook_Call ((variable n)\<lparr>grad := t\<rparr>), Mutex_Unlock] \<and>
          hook ((variable n)\<lparr>grad := t\<rparr>, mem1) =
            (variable (node_of (apply_locked n g mem)), memory_of (apply_locked n g mem))) \<and>
       \<not> hooks_outside_lock False (events_of (apply_locked n g mem))"
    if r: "result_of (apply_locked n g mem) = Inr rs" for rs
  proof -
    obtain v ev1 mem1 where
      acc: "accumulateGrad (grad (variable n)) g (num_expected_refs n) update_grad
              ((variable n, [Mutex_Lock]), mem) = Inr ((v, ev1), mem1)"
      using r by (auto simp: apply_locked_def result_of_def split: sum.splits)
    have t: "v = (variable n)\<lparr>grad := grad v\<rparr>" "ev1 = [Mutex_Lock, Grad_Update (grad v)]"
      using acc
      by (auto simp: accumulateGrad_def update_grad_def split: option.splits if_splits prod.splits)
    have out: "apply_locked n g mem =
        (Inr [], n\<lparr>variable := fst (hook (v, mem1))\<rparr>, snd (hook (v, mem1)),
         [Mutex_Lock, Grad_Update (grad v), Hook_Call v, Mutex_Unlock])"
      using acc assms(3) t(2) by (simp add: apply_locked_def split: prod.splits)
    have "rs = []" using r out by (simp add: result_of_def)
    moreover have "events_of (apply_locked n g mem) =
            [Mutex_Lock, Grad_Update (grad v), Hook_Call ((variable n)\<lparr>grad := grad v\<rparr>), Mutex_Unlock] \<and>
          hook ((variable n)\<lparr>grad := grad v\<rparr>, mem1) =
            (variable (node_of (apply_locked n g mem)), memory_of (apply_locked n g mem))"
      using out t(1) by (simp add: events_of_def node_of_def memory_of_def)
    moreover have "\<not> hooks_outside_lock False (events_of (apply_locked n g mem))"
      using out by (simp add: events_of_def)
    ultimately show ?thesis by blast
  qed
  show ?thesis unfolding eq using first rest by blast
qed

theorem apply_hook_after_commit_witness:
  "grad_fn (variable
     \<lparr>sequence_nr = UINT64_MAX,
      variable = \<lparr>grad_fn = None, requires_grad = True, grad = None\<rparr>,
      post_hooks = [], tensor_post_acc_grad_hooks = Some id\<rparr>) = None \<and>
   requires_grad (variable
     \<lparr>sequence_nr = UINT64_MAX,
      variable = \<lparr>grad_fn = None, requires_grad = True, grad = None\<rparr>,
      post_hooks = [], tensor_post_acc_grad_hooks = Some id\<rparr>) \<and>
   result_of (apply
     \<lparr>sequence_nr = UINT64_MAX,
      variable = \<lparr>grad_fn = None, requires_grad = True, grad = None\<rparr>,
      post_hooks = [], tensor_post_acc_grad_hooks = Some id\<rparr>
     [Some \<lparr>storage = 0, sizes = [3], dtype = Float, device = CPU, use_count = 1\<rparr>]
     [[1, 1, 1]]) = Inr [] \<and>
   \<not> hooks_outside_lock False (events_of (apply
     \<lparr>sequence_nr = UINT64_MAX,
      variable = \<lparr>grad_fn = None, requires_grad = True, grad = None\<rparr>,
      post_hooks = [], tensor_post_acc_grad_hooks = Some id\<rparr>
     [Some \<lparr>storage = 0, sizes = [3], dtype = Float, device = CPU, use_count = 1\<rparr>]
     [[1, 1, 1]]))"
  using apply_hook_after_commit [of
     "\<lparr>sequence_nr = UINT64_MAX,
      variable = \<lparr>grad_fn = None, requires_grad = True, grad = None\<rparr>,
      post_hooks = [], tensor_post_acc_grad_hooks = Some id\<rparr>" id
     "\<lparr>storage = 0, sizes = [3], dtype = Float, device = CPU, use_count = 1\<rparr>"
     "[[1, 1, 1]]"]
  by simp




subsection \<open>The custom backend of the open registration extension\<close>

text \<open>
  C5 as stated fails on the result: the kernel returns an uninitialised tensor. With the
  operands [1,1,1] and [2,2,2] and an allocation that holds zeros the result is [0,0,0],
  not [3,3,3].
\<close>

theorem custom_add_Tensor_sum_counterexample:
  "data
     (snd (snd (custom_add_Tensor
        \<lparr>storage = 0, sizes = [3], dtype = Float, device = PrivateUse1, use_count = 1\<rparr>
        \<lparr>storage = 1, sizes = [3], dtype = Float, device = PrivateUse1, use_count = 1\<rparr>
        1 zero_block (initial_extension_state, [[1, 1, 1], [2, 2, 2]]))))
     (fst (custom_add_Tensor
        \<lparr>storage = 0, sizes = [3], dtype = Float, device = PrivateUse1, use_count = 1\<rparr>
        \<lparr>storage = 1, sizes = [3], dtype = Float, device = PrivateUse1, use_count = 1\<rparr>
        1 zero_block (initial_extension_state, [[1, 1, 1], [2, 2, 2]])))
   = [0, 0, 0]"
  by (simp add: custom_add_Tensor_def at_empty_def options_def numel_def data_def read_storage_def
      upt_rec zero_block_def)

lemma word64_succ_gt:
  fixes c l :: "64 word"
  assumes "l \<le> c" and "c \<noteq> UINT64_MAX"
  shows "l < c + 1"
proof -
  have top: "UINT64_MAX = - 1" by (simp add: UINT64_MAX_def)
  have "c \<noteq> - 1" using assms(2) unfolding top .
  then have "\<not> c + 1 \<le> c" by (simp only: inc_less_eq_self_iff_eq not_False_eq_True)
  then have "c < c + 1" by simp
  with assms(1) show ?thesis by (rule le_less_trans)
qed

text \<open>
  C5, amended. The PrivateUse1 registration maps \<^verbatim>\<open>add.Tensor\<close> to
  \<^verbatim>\<open>custom_add_Tensor\<close>. Each call of the kernel returns a newly allocated tensor with
  the shape, dtype and device of \<open>self\<close> whose elements are what the allocated block
  held: they depend on neither operand nor on \<open>alpha\<close>. Each call adds one to
  \<open>add_counter\<close> and leaves \<open>last_saved_value\<close>, so that, when
  \<open>last_saved_value\<close> did not exceed the counter and the 64-bit counter does not wrap,
  \<open>custom_add_called\<close> then answers true and records the counter.
\<close>

theorem custom_add_Tensor_counts:
  "dispatch_PrivateUse1 ''add.Tensor'' = Some (Unboxed ''custom_add_Tensor'') \<and>
   fst (custom_add_Tensor self other alpha junk (st, mem)) =
     \<lparr>storage = length mem, sizes = sizes self, dtype = dtype self, device = device self,
      use_count = 1\<rparr> \<and>
   data (snd (snd (custom_add_Tensor self other alpha junk (st, mem))))
        (fst (custom_add_Tensor self other alpha junk (st, mem))) =
     map junk [0..<numel (sizes self)] \<and>
   add_counter (fst (snd (custom_add_Tensor self other alpha junk (st, mem)))) = add_counter st + 1 \<and>
   last_saved_value (fst (snd (custom_add_Tensor self other alpha junk (st, mem)))) = last_saved_value st \<and>
   (last_saved_value st \<le> add_counter st \<and> add_counter st \<noteq> UINT64_MAX \<longrightarrow>
      custom_add_called (fst (snd (custom_add_Tensor self other alpha junk (st, mem)))) =
        (True, st\<lparr>add_counter := add_counter st + 1, last_saved_value := add_counter st + 1\<rparr>))"
  using word64_succ_gt [of "last_saved_value st" "add_counter st"]
  by (simp add: dispatch_PrivateUse1_def aten_PrivateUse1_impl_def custom_add_Tensor_def
      at_empty_def options_def data_def read_storage_def custom_add_called_def)

theorem custom_add_Tensor_counts_witness:
  "last_saved_value initial_extension_state \<le> add_counter initial_extension_state \<and>
   add_counter initial_extension_state \<noteq> UINT64_MAX \<and>
   custom_add_called (fst (snd (custom_add_Tensor
        \<lparr>storage = 0, sizes = [3], dtype = Float, device = PrivateUse1, use_count = 1\<rparr>
        \<lparr>storage = 1, sizes = [3], dtype = Float, device = PrivateUse1, use_count = 1\<rparr>
        1 zero_block (initial_extension_state, [[1, 1, 1], [2, 2, 2]])))) =
     (True, \<lparr>add_counter = 1, last_saved_value = 1\<rparr>)"
  using custom_add_Tensor_counts [of
        "\<lparr>storage = 0, sizes = [3], dtype = Float, device = PrivateUse1, use_count = 1\<rparr>"
        "\<lparr>storage = 1, sizes = [3], dtype = Float, device = PrivateUse1, use_count = 1\<rparr>"
        1 zero_block initial_extension_state "[[1, 1, 1], [2, 2, 2]]"]
  by (simp add: initial_extension_state_def UINT64_MAX_def)

text \<open>
  C6. Registering the generator factory for PrivateUse1 into the empty slot, by
  \<open>register_generator_first\<close>, succeeds and stores it. The second attempt, by
  \<open>register_generator_second\<close> after it, fails with its own error and leaves the
  factory registered first in the slot; so does the registration of any factory \<open>g\<close>
  into a slot that holds a factory \<open>f\<close>.
\<close>

theorem register_generator_once:
  "register_generator_first None = (Inr (), Some make_generator_privateuse1) \<and>
   register_generator_second (snd (register_generator_first None)) =
     (Inl Generator_Already_Registered, Some make_generator_privateuse1) \<and>
   REGISTER_GENERATOR_PRIVATEUSE1 g (Some f) = (Inl Generator_Already_Registered, Some f)"
  by (simp add: register_generator_first_def register_generator_second_def
      REGISTER_GENERATOR_PRIVATEUSE1_def)

lemma convert_to_cpu_tensor_view:
  "device t = CPU \<or> device t = PrivateUse1 \<Longrightarrow> convert_to_cpu_tensor t = Inr (cpu_view t)"
  by (auto simp: convert_to_cpu_tensor_def unsafe_create_cpu_tensor_from_dummy_tensor_def cpu_view_def)

lemma cpu_view_alias:
  "device t = CPU \<or> device t = PrivateUse1 \<Longrightarrow>
   device (cpu_view t) = CPU \<and> storage (cpu_view t) = storage t \<and>
   sizes (cpu_view t) = sizes t \<and> strides (cpu_view t) = strides t \<and>
   storage_offset (cpu_view t) = storage_offset t \<and> dtype (cpu_view t) = dtype t"
  by (auto simp: cpu_view_def)

lemma custom__copy_from_paths:
  "(\<not> copy_precondition self dst \<longrightarrow>
      (\<exists>msg. custom__copy_from cpu_copy self dst non_blocking mem = Inl (Torch_Check_Failed msg))) \<and>
   (copy_precondition self dst \<and> is_contiguous self \<and> is_contiguous dst \<longrightarrow>
      custom__copy_from cpu_copy self dst non_blocking mem =
        Inr (dst, memcpy mem (storage dst) (storage self) (length (read_storage mem (storage self))))) \<and>
   (copy_precondition self dst \<and> \<not> (is_contiguous self \<and> is_contiguous dst) \<longrightarrow>
      custom__copy_from cpu_copy self dst non_blocking mem =
        and_then (cpu_copy (cpu_view dst) (cpu_view self) mem) (\<lambda>mem'. Inr (dst, mem')) \<and>
      device (cpu_view self) = CPU \<and> storage (cpu_view self) = storage self \<and>
      device (cpu_view dst) = CPU \<and> storage (cpu_view dst) = storage dst) \<and>
   (\<forall>r mem'. custom__copy_from cpu_copy self dst non_blocking mem = Inr (r, mem') \<longrightarrow> r = dst)"
proof -
  have a: "\<not> copy_precondition self dst \<Longrightarrow>
      (\<exists>msg. custom__copy_from cpu_copy self dst non_blocking mem = Inl (Torch_Check_Failed msg))"
    by (auto simp: copy_precondition_def custom__copy_from_def is_cpu_def)
  have b: "copy_precondition self dst \<Longrightarrow> is_contiguous self \<and> is_contiguous dst \<Longrightarrow>
      custom__copy_from cpu_copy self dst non_blocking mem =
        Inr (dst, memcpy mem (storage dst) (storage self) (length (read_storage mem (storage self))))"
    by (auto simp: copy_precondition_def custom__copy_from_def is_cpu_def)
  have c: "copy_precondition self dst \<Longrightarrow> \<not> (is_contiguous self \<and> is_contiguous dst) \<Longrightarrow>
      custom__copy_from cpu_copy self dst non_blocking mem =
        and_then (cpu_copy (cpu_view dst) (cpu_view self) mem) (\<lambda>mem'. Inr (dst, mem'))"
    using convert_to_cpu_tensor_view [of self] convert_to_cpu_tensor_view [of dst]
    by (auto simp: copy_precondition_def custom__copy_from_def is_cpu_def and_then_def)
  have v: "copy_precondition self dst \<Longrightarrow>
      device (cpu_view self) = CPU \<and> storage (cpu_view self) = storage self \<and>
      device (cpu_view dst) = CPU \<and> storage (cpu_view dst) = storage dst"
    using cpu_view_alias [of self] cpu_view_alias [of dst]
    by (simp add: copy_precondition_def)
  have d: "custom__copy_from cpu_copy self dst non_blocking mem = Inr (r, mem') \<Longrightarrow> r = dst" for r mem'
    by (auto simp: custom__copy_from_def and_then_def split: if_splits sum.splits)
  show ?thesis
    using a b c d v by (auto simp: and_then_def)
qed

lemma custom__copy_from_strided_example:
  "custom__copy_from strided_copy
     \<lparr>storage = 0, sizes = [3], dtype = Float, device = CPU, use_count = 1,
      strides = [2], storage_offset = 0, is_contiguous = False\<rparr>
     \<lparr>storage = 1, sizes = [3], dtype = Float, device = PrivateUse1, use_count = 1,
      strides = [1], storage_offset = 0, is_contiguous = True\<rparr>
     False [[1, 9, 2, 9, 3], [0, 0, 0]] =
     Inr (\<lparr>storage = 1, sizes = [3], dtype = Float, device = PrivateUse1, use_count = 1,
           strides = [1], storage_offset = 0, is_contiguous = True\<rparr>,
          [[1, 9, 2, 9, 3], [1, 2, 3]])"
  by (simp add: custom__copy_from_def is_cpu_def convert_to_cpu_tensor_def
      unsafe_create_cpu_tensor_from_dummy_tensor_def and_then_def strided_copy_def
      read_storage_def upt_rec)

text \<open>
  C10. The checks of the copy kernel hold apart tensors of other devices, sizes or
  scalar types, but the raw copy of the contiguous path takes its length from the storage
  of the source (\<^verbatim>\<open>self.storage().nbytes()\<close>), not from the tensors. A contiguous source
  of three elements on a storage of five and a contiguous destination of three elements
  on a storage of three pass every check; the kernel then writes five elements from the
  start of the destination's block of three, two of them past its end, and returns the
  destination tensor.
\<close>

theorem custom__copy_from_overruns_destination:
  "copy_precondition
     \<lparr>storage = 0, sizes = [3], dtype = Float, device = CPU, use_count = 1,
      strides = [1], storage_offset = 0, is_contiguous = True\<rparr>
     \<lparr>storage = 1, sizes = [3], dtype = Float, device = PrivateUse1, use_count = 1,
      strides = [1], storage_offset = 0, is_contiguous = True\<rparr> \<and>
   length (read_storage [[1, 2, 3, 4, 5], [0, 0, 0]] 1) = 3 \<and>
   custom__copy_from strided_copy
     \<lparr>storage = 0, sizes = [3], dtype = Float, device = CPU, use_count = 1,
      strides = [1], storage_offset = 0, is_contiguous = True\<rparr>
     \<lparr>storage = 1, sizes = [3], dtype = Float, device = PrivateUse1, use_count = 1,
      strides = [1], storage_offset = 0, is_contiguous = True\<rparr>
     False [[1, 2, 3, 4, 5], [0, 0, 0]] =
     Inr (\<lparr>storage = 1, sizes = [3], dtype = Float, device = PrivateUse1, use_count = 1,
           strides = [1], storage_offset = 0, is_contiguous = True\<rparr>,
          [[1, 2, 3, 4, 5], [1, 2, 3, 4, 5]]) \<and>
   written_past_end [[1, 2, 3, 4, 5], [0, 0, 0]] 1 0 5 = [4, 5]"
  by (simp add: copy_precondition_def custom__copy_from_def is_cpu_def memcpy_def
      written_past_end_def read_storage_def)

end
